theory Spec2Isabelle
  imports Main
begin

section \<open>JavaScript values\<close>

text \<open>
  The values the middleware of \<^verbatim>\<open>errorHandler.js\<close> handles: \<^verbatim>\<open>undefined\<close>,
  \<^verbatim>\<open>null\<close>, booleans, integral numbers, strings and plain objects. An object is the
  list of its own enumerable string-keyed properties in the order \<^verbatim>\<open>Object.keys\<close>
  enumerates them; a well-formed object has pairwise distinct keys. Characters are
  8-bit, so a string stands for a JavaScript string whose code units are below 256.
\<close>

datatype jsval =
    JUndefined
  | JNull
  | JBool bool
  | JNum int
  | JStr string
  | JObj "(string \<times> jsval) list"

type_synonym obj = "(string \<times> jsval) list"

text \<open>\<^verbatim>\<open>!v\<close> is \<open>\<not> truthy v\<close>, and \<^verbatim>\<open>a || b\<close> is \<open>a\<close> when \<open>truthy a\<close>.\<close>

fun truthy :: "jsval \<Rightarrow> bool" where
  "truthy JUndefined = False"
| "truthy JNull = False"
| "truthy (JBool b) = b"
| "truthy (JNum n) = (n \<noteq> 0)"
| "truthy (JStr s) = (s \<noteq> [])"
| "truthy (JObj ps) = True"

definition js_or :: "jsval \<Rightarrow> jsval \<Rightarrow> jsval" where
  "js_or a b = (if truthy a then a else b)"

text \<open>Decimal numerals, the names of a string's index properties.\<close>

definition digit_char :: "nat \<Rightarrow> char" where
  "digit_char d = ''0123456789'' ! (d mod 10)"

fun dec :: "nat \<Rightarrow> string" where
  "dec n = (if n < 10 then [digit_char n] else dec (n div 10) @ [digit_char n])"

text \<open>
  \<^verbatim>\<open>Object.keys(v)\<close> for a value that is neither \<^verbatim>\<open>undefined\<close> nor \<^verbatim>\<open>null\<close>
  (those raise), and the property read \<^verbatim>\<open>v[k]\<close> on such a value. The read is used
  only with the keys \<^verbatim>\<open>Object.keys\<close> returned and with the names \<^verbatim>\<open>errors\<close>,
  \<^verbatim>\<open>message\<close>, \<^verbatim>\<open>status\<close> and \<^verbatim>\<open>stack\<close>, none of which a built-in prototype of
  these values defines.
\<close>

fun own_keys :: "jsval \<Rightarrow> string list" where
  "own_keys (JObj ps) = map fst ps"
| "own_keys (JStr s) = map dec [0..<length s]"
| "own_keys v = []"

fun js_get :: "jsval \<Rightarrow> string \<Rightarrow> jsval" where
  "js_get (JObj ps) k = (case map_of ps k of None \<Rightarrow> JUndefined | Some v \<Rightarrow> v)"
| "js_get (JStr s) k =
     (case find (\<lambda>i. dec i = k) [0..<length s] of
        None \<Rightarrow> JUndefined
      | Some i \<Rightarrow> JStr [s ! i])"
| "js_get v k = JUndefined"

definition nullish :: "jsval \<Rightarrow> bool" where
  "nullish v = (v = JUndefined \<or> v = JNull)"

section \<open>Requests, the response and the continuation\<close>

text \<open>
  \<^verbatim>\<open>res\<close> and \<^verbatim>\<open>next\<close> belong to the hosting framework. A middleware is modelled by
  the calls it makes on them, in order: one event per call.
\<close>

datatype event =
    ResStatus jsval
  | ResJson jsval
  | ResSend jsval
  | ResRedirect string
  | FormatUnmatched
  | Next jsval

text \<open>
  What \<^verbatim>\<open>res.format\<close> selects from the request's \<^verbatim>\<open>Accept\<close> header among the keys
  \<^verbatim>\<open>text/html\<close> and \<^verbatim>\<open>application/json\<close>.
\<close>

datatype negotiated = TextHtml | ApplicationJson | NotAcceptable

record request =
  originalUrl :: string
  accepts :: negotiated

datatype js_exn = TypeError

text \<open>What a middleware did: its calls, and the exception it ended with, if any.\<close>

record outcome =
  calls :: "event list"
  threw :: "js_exn option"

section \<open>errorHandler.js\<close>

text \<open>
  \<^verbatim>\<open>new Error(msg)\<close>; \<open>stk\<close> is the stack trace the runtime captures at construction.
\<close>

definition new_Error :: "string \<Rightarrow> string \<Rightarrow> jsval" where
  "new_Error msg stk = JObj [(''stack'', JStr stk), (''message'', JStr msg)]"

definition notFound :: "string \<Rightarrow> request \<Rightarrow> outcome" where
  "notFound stk req =
     (let error = new_Error (''Not found - '' @ originalUrl req) stk
      in \<lparr>calls = [ResStatus (JNum 404), Next error, ResRedirect ''back''], threw = None\<rparr>)"

definition productionErrors :: "obj \<Rightarrow> request \<Rightarrow> outcome" where
  "productionErrors err req =
     \<lparr>calls = [ResStatus (JNum 500), ResJson (JObj [(''error'', JObj err)]), Next JUndefined],
      threw = None\<rparr>"

text \<open>
  \<^verbatim>\<open>StatusCodes.UNPROCESSABLE_ENTITY\<close> and \<^verbatim>\<open>ReasonPhrases.UNPROCESSABLE_ENTITY\<close>
  of the package \<^verbatim>\<open>http-status-codes\<close>.
\<close>

definition UNPROCESSABLE_ENTITY :: int where
  "UNPROCESSABLE_ENTITY = 422"

definition UNPROCESSABLE_ENTITY_phrase :: string where
  "UNPROCESSABLE_ENTITY_phrase = ''Unprocessable Entity''"

text \<open>
  The body of \<^verbatim>\<open>errorKeys.forEach\<close>. In \<^verbatim>\<open>res.status(..).json({..})\<close> the call of
  \<^verbatim>\<open>res.status\<close> comes before the argument of \<^verbatim>\<open>json\<close> is built, so reading
  \<^verbatim>\<open>.message\<close> of an entry that is \<^verbatim>\<open>undefined\<close> or \<^verbatim>\<open>null\<close> raises after the
  status call and ends the loop.
\<close>

fun forEach_key :: "jsval \<Rightarrow> string list \<Rightarrow> outcome" where
  "forEach_key errors [] = \<lparr>calls = [], threw = None\<rparr>"
| "forEach_key errors (key # keys) =
     (let entry = js_get errors key
      in if nullish entry
         then \<lparr>calls = [ResStatus (JNum UNPROCESSABLE_ENTITY)], threw = Some TypeError\<rparr>
         else
           (let r = forEach_key errors keys
            in r\<lparr>calls :=
                 ResStatus (JNum UNPROCESSABLE_ENTITY)
                 # ResJson (JObj [(''status'', JStr UNPROCESSABLE_ENTITY_phrase),
                                  (''error'', js_get entry ''message'')])
                 # calls r\<rparr>))"

definition flashValidationErrors :: "obj \<Rightarrow> request \<Rightarrow> outcome" where
  "flashValidationErrors err req =
     (if \<not> truthy (js_get (JObj err) ''errors'')
      then \<lparr>calls = [Next (JObj err)], threw = None\<rparr>
      else
        (let errorKeys = own_keys (js_get (JObj err) ''errors'')
         in forEach_key (js_get (JObj err) ''errors'') errorKeys))"

subsection \<open>The regular expression of the stack highlighter\<close>

text \<open>
  \<^verbatim>\<open>/[a-z_-\d]+.js:\d+:\d+/gi\<close> is a sequence of atoms, each one character or a greedy
  \<^verbatim>\<open>+\<close> over one character. The matcher tries the alternatives in the order of a
  backtracking engine: a \<^verbatim>\<open>+\<close> first takes one more character and gives it back
  only when the rest fails. It returns the length of the match at the start of the
  string.
\<close>

datatype atom = One "char \<Rightarrow> bool" | Plus "char \<Rightarrow> bool"

fun rx :: "atom list \<Rightarrow> string \<Rightarrow> nat option" where
  "rx [] s = Some 0"
| "rx (One p # r) [] = None"
| "rx (One p # r) (c # s) = (if p c then map_option Suc (rx r s) else None)"
| "rx (Plus p # r) [] = None"
| "rx (Plus p # r) (c # s) =
     (if p c
      then (case rx (Plus p # r) s of
              Some n \<Rightarrow> Some (Suc n)
            | None \<Rightarrow> map_option Suc (rx r s))
      else None)"

text \<open>
  The class \<^verbatim>\<open>[a-z_-\d]\<close> under the flag \<^verbatim>\<open>i\<close>: the range \<^verbatim>\<open>a-z\<close> in both cases,
  and \<^verbatim>\<open>_-\d\<close>, which without the flag \<^verbatim>\<open>u\<close> is the underscore, the hyphen and the
  digits.
\<close>

definition digit :: "char \<Rightarrow> bool" where
  "digit c = (c \<in> set ''0123456789'')"

definition name_char :: "char \<Rightarrow> bool" where
  "name_char c =
     (c \<in> set ''abcdefghijklmnopqrstuvwxyz'' \<or> c \<in> set ''ABCDEFGHIJKLMNOPQRSTUVWXYZ''
      \<or> c = CHR ''_'' \<or> c = CHR ''-'' \<or> digit c)"

text \<open>The unescaped \<^verbatim>\<open>.\<close>: any character but a line terminator.\<close>

definition any_char :: "char \<Rightarrow> bool" where
  "any_char c = (c \<noteq> CHR 0x0A \<and> c \<noteq> CHR 0x0D)"

text \<open>A letter of the pattern under the flag \<^verbatim>\<open>i\<close>, given in both cases.\<close>

definition letter :: "char \<Rightarrow> char \<Rightarrow> char \<Rightarrow> bool" where
  "letter lower upper c = (c = lower \<or> c = upper)"

definition stack_location :: "atom list" where
  "stack_location =
     [Plus name_char, One any_char,
      One (letter CHR ''j'' CHR ''J''), One (letter CHR ''s'' CHR ''S''), One (\<lambda>c. c = CHR '':''),
      Plus digit, One (\<lambda>c. c = CHR '':''), Plus digit]"

text \<open>
  \<^verbatim>\<open>s.replace(re, "<mark>$&</mark>")\<close> for a global \<open>re\<close>: the matches are searched from
  left to right, each search starting where the last match ended; the text between
  matches is copied. After an empty match the search moves on by one character.
\<close>

function replace_mark :: "atom list \<Rightarrow> string \<Rightarrow> string" where
  "replace_mark re [] = (case rx re [] of Some n \<Rightarrow> ''<mark></mark>'' | None \<Rightarrow> [])"
| "replace_mark re (c # s) =
     (case rx re (c # s) of
        None \<Rightarrow> c # replace_mark re s
      | Some 0 \<Rightarrow> ''<mark></mark>'' @ c # replace_mark re s
      | Some (Suc n) \<Rightarrow>
          ''<mark>'' @ take (Suc n) (c # s) @ ''</mark>'' @ replace_mark re (drop n s))"
  by pat_completeness auto
termination
  by (relation "measure (\<lambda>(re, s). length s)") auto

text \<open>
  \<^verbatim>\<open>err[k] = v\<close> on an object: an own property keeps its place, a new one goes last.
\<close>

fun js_set :: "obj \<Rightarrow> string \<Rightarrow> jsval \<Rightarrow> obj" where
  "js_set [] k v = [(k, v)]"
| "js_set ((k', v') # ps) k v = (if k' = k then (k, v) # ps else (k', v') # js_set ps k v)"

text \<open>
  \<^verbatim>\<open>res.format\<close> runs the handler of the negotiated type; with no acceptable type it
  runs neither.
\<close>

definition res_format :: "request \<Rightarrow> event list \<Rightarrow> event list \<Rightarrow> event list" where
  "res_format req html json =
     (case accepts req of
        TextHtml \<Rightarrow> html
      | ApplicationJson \<Rightarrow> json
      | NotAcceptable \<Rightarrow> [FormatUnmatched])"

text \<open>
  \<^verbatim>\<open>developmentErrors\<close>. The first statement assigns to \<^verbatim>\<open>err.stack\<close>;
  \<open>stack_defaulted\<close> is the error object after it. \<^verbatim>\<open>.replace\<close> exists on a string
  only: on any other value that passed \<^verbatim>\<open>||\<close> the call raises before \<^verbatim>\<open>res\<close> is
  touched.
\<close>

definition stack_defaulted :: "obj \<Rightarrow> obj" where
  "stack_defaulted err = js_set err ''stack'' (js_or (js_get (JObj err) ''stack'') (JStr []))"

definition errorDetails :: "obj \<Rightarrow> string \<Rightarrow> jsval" where
  "errorDetails err stack =
     JObj [(''message'', js_get (JObj err) ''message''),
           (''status'', js_get (JObj err) ''status''),
           (''stackHighlighted'', JStr (replace_mark stack_location stack))]"

definition developmentErrors :: "obj \<Rightarrow> request \<Rightarrow> outcome" where
  "developmentErrors err0 req =
     (let err = stack_defaulted err0
      in case js_get (JObj err) ''stack'' of
           JStr stack \<Rightarrow>
             \<lparr>calls =
                [ResStatus (js_or (js_get (JObj err) ''status'') (JNum 500))]
                @ res_format req
                    [ResSend (JObj [(''error'', errorDetails err stack)])]
                    [ResJson (errorDetails err stack)]
                @ [Next JUndefined],
              threw = None\<rparr>
         | _ \<Rightarrow> \<lparr>calls = [], threw = Some TypeError\<rparr>)"

subsection \<open>catchErrors\<close>

text \<open>
  A call of a route handler either throws or returns; what it returns is a
  \<^verbatim>\<open>Promise\<close> or any other value, and a promise ends fulfilled, rejected, or never
  settles. A handler is given by the result of its call and the calls it makes on
  \<^verbatim>\<open>res\<close> and \<^verbatim>\<open>next\<close> itself.
\<close>

datatype settled = Fulfilled jsval | Rejected jsval | Pending

datatype returned = Plain jsval | Promise settled

datatype completion = Return returned | Throw jsval

type_synonym handler = "request \<Rightarrow> completion \<times> event list"

text \<open>
  \<^verbatim>\<open>resp.catch(next)\<close>: the new promise and the call it makes. \<^verbatim>\<open>next\<close> returns
  \<^verbatim>\<open>undefined\<close>.
\<close>

fun promise_catch_next :: "settled \<Rightarrow> settled \<times> event list" where
  "promise_catch_next (Fulfilled v) = (Fulfilled v, [])"
| "promise_catch_next (Rejected e) = (Fulfilled JUndefined, [Next e])"
| "promise_catch_next Pending = (Pending, [])"

definition catchErrors :: "handler \<Rightarrow> handler" where
  "catchErrors fn req =
     (case fn req of
        (Throw e, evs) \<Rightarrow> (Throw e, evs)
      | (Return (Promise resp), evs) \<Rightarrow>
          (let (p, evs') = promise_catch_next resp in (Return (Promise p), evs @ evs'))
      | (Return (Plain resp), evs) \<Rightarrow> (Return (Plain resp), evs))"

section \<open>socket.config.js\<close>

text \<open>
  The connection as this code sees it: its identifier, the rooms it is in, and the
  lines written with \<^verbatim>\<open>console.log\<close>.
\<close>

record socket =
  socket_id :: string
  rooms :: "string set"
  console :: "string list"

text \<open>
  Modelled from the spec: \<^verbatim>\<open>socket.join\<close> and \<^verbatim>\<open>socket.leave\<close> are the transport's
  (Socket.IO), which is not part of the sources. The spec has a room as a named set of
  connections: joining adds the connection to the named group, leaving removes it if
  present and is a no-op otherwise.
\<close>

definition join :: "string \<Rightarrow> socket \<Rightarrow> socket" where
  "join room s = s\<lparr>rooms := insert room (rooms s)\<rparr>"

definition leave :: "string \<Rightarrow> socket \<Rightarrow> socket" where
  "leave room s = s\<lparr>rooms := rooms s - {room}\<rparr>"

definition console_log :: "string \<Rightarrow> socket \<Rightarrow> socket" where
  "console_log line s = s\<lparr>console := console s @ [line]\<rparr>"

text \<open>
  \<^verbatim>\<open>SocketServer\<close> registers one listener per event name with \<^verbatim>\<open>socket.on\<close>; the
  result is the table of listeners. \<open>receive\<close> is the transport delivering an event
  with its argument to the listener registered for it.
\<close>

definition SocketServer :: "string \<rightharpoonup> (string \<Rightarrow> socket \<Rightarrow> socket)" where
  "SocketServer =
     [''joinRoom'' \<mapsto> (\<lambda>id. join id),
      ''outRoom'' \<mapsto> (\<lambda>id. leave id),
      ''disconnect'' \<mapsto> (\<lambda>_ s. console_log (socket_id s @ '' disconnected'') s)]"

definition receive :: "string \<Rightarrow> string \<Rightarrow> socket \<Rightarrow> socket" where
  "receive name arg s = (case SocketServer name of None \<Rightarrow> s | Some listener \<Rightarrow> listener arg s)"

section \<open>Reading a trace\<close>

text \<open>The bodies a middleware emitted with \<^verbatim>\<open>res.json\<close> or \<^verbatim>\<open>res.send\<close>, in order.\<close>

fun bodies :: "event list \<Rightarrow> jsval list" where
  "bodies [] = []"
| "bodies (ResJson b # evs) = b # bodies evs"
| "bodies (ResSend b # evs) = b # bodies evs"
| "bodies (ev # evs) = bodies evs"

text \<open>
  The source location as the specification words it, \<^verbatim>\<open>file.js:line:column\<close>: the
  pattern of the code with a full stop where the code has the unescaped \<^verbatim>\<open>.\<close>.
\<close>

definition spec_source_location :: "atom list" where
  "spec_source_location =
     [Plus name_char, One (\<lambda>c. c = CHR ''.''),
      One (letter CHR ''j'' CHR ''J''), One (letter CHR ''s'' CHR ''S''), One (\<lambda>c. c = CHR '':''),
      Plus digit, One (\<lambda>c. c = CHR '':''), Plus digit]"

text \<open>Two route handlers: one throws during its call, one returns a promise that rejects.\<close>

definition throwing_handler :: handler where
  "throwing_handler req = (Throw (JStr ''boom''), [])"

definition rejecting_handler :: handler where
  "rejecting_handler req = (Return (Promise (Rejected (JStr ''boom''))), [ResStatus (JNum 200)])"

section \<open>Properties of the object operations\<close>

lemma js_get_js_set_same: "js_get (JObj (js_set ps k v)) k = v"
  by (induction ps) auto

lemma js_get_js_set_other: "k' \<noteq> k \<Longrightarrow> js_get (JObj (js_set ps k v)) k' = js_get (JObj ps) k'"
  by (induction ps) auto

section \<open>Properties of the matcher\<close>

lemma rx_length: "rx re s = Some n \<Longrightarrow> n \<le> length s"
  by (induction re s arbitrary: n rule: rx.induct) (auto split: if_splits option.splits)

lemma rx_stack_location_Nil: "rx stack_location [] = None"
  by (simp add: stack_location_def)

text \<open>
  Widening the character after a \<^verbatim>\<open>+\<close> keeps every match and its length, when the
  narrow character is outside the class of the \<^verbatim>\<open>+\<close>: the engine then has only one
  place to end the \<^verbatim>\<open>+\<close>.
\<close>

lemma rx_plus_widen_next:
  assumes "\<And>c. q c \<Longrightarrow> q' c \<and> \<not> p c"
  shows "rx (Plus p # One q # r) s = Some n \<Longrightarrow> rx (Plus p # One q' # r) s = Some n"
proof (induction s arbitrary: n)
  case Nil
  then show ?case by simp
next
  case (Cons c s)
  from Cons.prems have pc: "p c" by (simp split: if_splits)
  show ?case
  proof (cases "rx (Plus p # One q # r) s")
    case (Some m)
    with Cons.IH have "rx (Plus p # One q' # r) s = Some m" by simp
    with Cons.prems Some pc show ?thesis by simp
  next
    case None
    with Cons.prems pc obtain m where m: "rx (One q # r) s = Some m" "n = Suc m"
      by auto
    then obtain d s' where s: "s = d # s'" "q d"
      by (cases s) (auto split: if_splits)
    with assms have "q' d" "\<not> p d" by auto
    with m s pc show ?thesis by (auto split: if_splits)
  qed
qed

text \<open>
  Every \<^verbatim>\<open>file.js:line:column\<close> at the start of a string is matched by the pattern of
  the code, with the same extent. The converse fails.
\<close>

lemma spec_source_location_is_matched:
  "rx spec_source_location s = Some n \<Longrightarrow> rx stack_location s = Some n"
  unfolding spec_source_location_def stack_location_def
  by (rule rx_plus_widen_next) (auto simp: any_char_def name_char_def digit_def)

section \<open>Properties of the middleware\<close>

lemma errorDetails_stack_defaulted: "errorDetails (stack_defaulted err) s = errorDetails err s"
  by (simp add: errorDetails_def stack_defaulted_def js_get_js_set_other del: js_get.simps)

text \<open>
  What \<^verbatim>\<open>developmentErrors\<close> does when \<^verbatim>\<open>err.stack || ""\<close> is a string, which is the
  case when the stack is a string or is missing.
\<close>

lemma developmentErrors_string_stack:
  assumes "js_or (js_get (JObj err) ''stack'') (JStr []) = JStr s"
  shows "developmentErrors err req =
    \<lparr>calls = [ResStatus (js_or (js_get (JObj err) ''status'') (JNum 500))]
        @ res_format req [ResSend (JObj [(''error'', errorDetails err s)])] [ResJson (errorDetails err s)]
        @ [Next JUndefined],
     threw = None\<rparr>"
proof -
  have stack: "js_get (JObj (stack_defaulted err)) ''stack'' = JStr s"
    using assms by (simp add: stack_defaulted_def js_get_js_set_same del: js_get.simps)
  have status: "js_get (JObj (stack_defaulted err)) ''status'' = js_get (JObj err) ''status''"
    by (simp add: stack_defaulted_def js_get_js_set_other del: js_get.simps)
  show ?thesis
    unfolding developmentErrors_def Let_def stack status
    by (simp add: errorDetails_stack_defaulted)
qed

text \<open>
  The loop over the keys of an object whose entries can all be read: one status call
  and one body per entry, in the order of the keys.
\<close>

lemma forEach_key_entries:
  assumes "distinct (map fst ents)"
  shows "set es \<subseteq> set ents \<Longrightarrow> list_all (\<lambda>(field, entry). \<not> nullish entry) es \<Longrightarrow>
    forEach_key (JObj ents) (map fst es) =
      \<lparr>calls = concat (map (\<lambda>(field, entry).
          [ResStatus (JNum 422),
           ResJson (JObj [(''status'', JStr ''Unprocessable Entity''),
                          (''error'', js_get entry ''message'')])]) es),
       threw = None\<rparr>"
proof (induction es)
  case Nil
  then show ?case by simp
next
  case (Cons e es)
  obtain k v where e: "e = (k, v)" by (cases e)
  from Cons.prems e have "(k, v) \<in> set ents" by simp
  with assms have look: "map_of ents k = Some v" by simp
  from Cons.prems e have nn: "\<not> nullish v" by simp
  from Cons.prems have rest: "set es \<subseteq> set ents" "list_all (\<lambda>(field, entry). \<not> nullish entry) es"
    by simp_all
  show ?case
    using Cons.IH [OF rest] look nn
    by (simp add: e UNPROCESSABLE_ENTITY_def UNPROCESSABLE_ENTITY_phrase_def)
qed

section \<open>The claims\<close>

text \<open>
  C1. For every request that reaches \<^verbatim>\<open>notFound\<close>, the middleware sets the status 404,
  then calls \<^verbatim>\<open>next\<close> with an error whose message is \<^verbatim>\<open>"Not found - "\<close> followed by
  the requested path, and only then redirects to \<^verbatim>\<open>"back"\<close>, the referring page.
\<close>

theorem notFound_forwards_error_then_redirects:
  "\<exists>error. calls (notFound stk req) = [ResStatus (JNum 404), Next error, ResRedirect ''back'']
     \<and> js_get error ''message'' = JStr (''Not found - '' @ originalUrl req)
     \<and> threw (notFound stk req) = None"
  by (simp add: notFound_def new_Error_def)

text \<open>The request for \<^verbatim>\<open>/nowhere\<close>.\<close>

theorem notFound_forwards_error_then_redirects_witness:
  "\<exists>error. calls (notFound ''Error: Not found - /nowhere''
        \<lparr>originalUrl = ''/nowhere'', accepts = TextHtml\<rparr>)
       = [ResStatus (JNum 404), Next error, ResRedirect ''back'']
     \<and> js_get error ''message'' = JStr ''Not found - /nowhere''"
  using notFound_forwards_error_then_redirects
      [of "''Error: Not found - /nowhere''" "\<lparr>originalUrl = ''/nowhere'', accepts = TextHtml\<rparr>"]
  by auto

text \<open>
  With the mapping \<^verbatim>\<open>{email: "invalid", age: "required"}\<close> itself as \<^verbatim>\<open>err.errors\<close>,
  the two bodies carry \<^verbatim>\<open>error: undefined\<close>: the code reads the property
  \<^verbatim>\<open>message\<close> of each entry, and a string has none.
\<close>

theorem flashValidationErrors_plain_messages_counterexample:
  "bodies (calls (flashValidationErrors
      [(''errors'', JObj [(''email'', JStr ''invalid''), (''age'', JStr ''required'')])]
      \<lparr>originalUrl = ''/signup'', accepts = ApplicationJson\<rparr>))
   = [JObj [(''status'', JStr ''Unprocessable Entity''), (''error'', JUndefined)],
      JObj [(''status'', JStr ''Unprocessable Entity''), (''error'', JUndefined)]]
   \<and> bodies (calls (flashValidationErrors
      [(''errors'', JObj [(''email'', JStr ''invalid''), (''age'', JStr ''required'')])]
      \<lparr>originalUrl = ''/signup'', accepts = ApplicationJson\<rparr>))
   \<noteq> [JObj [(''status'', JStr ''Unprocessable Entity''), (''error'', JStr ''invalid'')],
      JObj [(''status'', JStr ''Unprocessable Entity''), (''error'', JStr ''required'')]]"
  by (simp add: flashValidationErrors_def nullish_def UNPROCESSABLE_ENTITY_phrase_def)

text \<open>
  C2, amended. For every error whose \<^verbatim>\<open>errors\<close> is an object with entries that are
  neither \<^verbatim>\<open>undefined\<close> nor \<^verbatim>\<open>null\<close>, \<^verbatim>\<open>flashValidationErrors\<close> makes, for each
  field in the order of the keys, one call setting the status 422 and one call emitting
  the JSON body \<^verbatim>\<open>{status: "Unprocessable Entity", error: m}\<close>, where \<open>m\<close> is the
  property \<^verbatim>\<open>message\<close> of the field's entry; it calls nothing else and does not raise.
\<close>

theorem flashValidationErrors_one_response_per_field:
  assumes "js_get (JObj err) ''errors'' = JObj ents"
    and "distinct (map fst ents)"
    and "list_all (\<lambda>(field, entry). \<not> nullish entry) ents"
  shows "flashValidationErrors err req =
    \<lparr>calls = concat (map (\<lambda>(field, entry).
        [ResStatus (JNum 422),
         ResJson (JObj [(''status'', JStr ''Unprocessable Entity''),
                        (''error'', js_get entry ''message'')])]) ents),
     threw = None\<rparr>"
proof -
  have "flashValidationErrors err req = forEach_key (JObj ents) (map fst ents)"
    using assms(1) by (simp add: flashValidationErrors_def del: js_get.simps)
  then show ?thesis
    using forEach_key_entries [OF assms(2) subset_refl assms(3)] by simp
qed

text \<open>
  The mapping \<^verbatim>\<open>{email: {message: "invalid"}, age: {message: "required"}}\<close>: a body
  with the error \<^verbatim>\<open>"invalid"\<close>, then one with \<^verbatim>\<open>"required"\<close>.
\<close>

theorem flashValidationErrors_one_response_per_field_witness:
  "flashValidationErrors
     [(''errors'', JObj [(''email'', JObj [(''message'', JStr ''invalid'')]),
                         (''age'', JObj [(''message'', JStr ''required'')])])]
     \<lparr>originalUrl = ''/signup'', accepts = ApplicationJson\<rparr>
   = \<lparr>calls =
        [ResStatus (JNum 422),
         ResJson (JObj [(''status'', JStr ''Unprocessable Entity''), (''error'', JStr ''invalid'')]),
         ResStatus (JNum 422),
         ResJson (JObj [(''status'', JStr ''Unprocessable Entity''), (''error'', JStr ''required'')])],
      threw = None\<rparr>"
  using flashValidationErrors_one_response_per_field
    [of "[(''errors'', JObj [(''email'', JObj [(''message'', JStr ''invalid'')]),
                             (''age'', JObj [(''message'', JStr ''required'')])])]"
        "[(''email'', JObj [(''message'', JStr ''invalid'')]),
          (''age'', JObj [(''message'', JStr ''required'')])]"
        "\<lparr>originalUrl = ''/signup'', accepts = ApplicationJson\<rparr>"]
  by (simp add: nullish_def)

text \<open>
  For a request that prefers JSON the body is the detail object itself, with no
  \<^verbatim>\<open>error\<close> key around it.
\<close>

theorem developmentErrors_json_body_counterexample:
  "bodies (calls (developmentErrors [(''message'', JStr ''boom''), (''status'', JNum 418)]
      \<lparr>originalUrl = ''/x'', accepts = ApplicationJson\<rparr>))
   = [JObj [(''message'', JStr ''boom''), (''status'', JNum 418), (''stackHighlighted'', JStr [])]]
   \<and> bodies (calls (developmentErrors [(''message'', JStr ''boom''), (''status'', JNum 418)]
      \<lparr>originalUrl = ''/x'', accepts = ApplicationJson\<rparr>))
   \<noteq> [JObj [(''error'',
        JObj [(''message'', JStr ''boom''), (''status'', JNum 418), (''stackHighlighted'', JStr [])])]]"
  by (simp add: developmentErrors_def stack_defaulted_def js_or_def errorDetails_def res_format_def
      rx_stack_location_Nil)

text \<open>
  C3, amended. For every error handled by \<^verbatim>\<open>developmentErrors\<close> whose stack is a
  string or missing, the detail object is
  \<^verbatim>\<open>{message, status, stackHighlighted}\<close>; for a request that prefers HTML the one
  body emitted is the detail object under the key \<^verbatim>\<open>error\<close>, for a request that
  prefers JSON it is the detail object itself, and with no acceptable type no body is
  emitted.
\<close>

theorem developmentErrors_body_by_format:
  assumes "js_or (js_get (JObj err) ''stack'') (JStr []) = JStr s"
  shows "bodies (calls (developmentErrors err req)) =
      (case accepts req of
         TextHtml \<Rightarrow> [JObj [(''error'', errorDetails err s)]]
       | ApplicationJson \<Rightarrow> [errorDetails err s]
       | NotAcceptable \<Rightarrow> [])
    \<and> errorDetails err s =
        JObj [(''message'', js_get (JObj err) ''message''),
              (''status'', js_get (JObj err) ''status''),
              (''stackHighlighted'', JStr (replace_mark stack_location s))]"
  unfolding developmentErrors_string_stack [OF assms]
  by (simp add: res_format_def errorDetails_def split: negotiated.split del: js_get.simps)

text \<open>The error \<^verbatim>\<open>{message: "boom", status: 418}\<close>, for HTML and for JSON.\<close>

theorem developmentErrors_body_by_format_witness:
  "bodies (calls (developmentErrors [(''message'', JStr ''boom''), (''status'', JNum 418)]
      \<lparr>originalUrl = ''/x'', accepts = TextHtml\<rparr>))
   = [JObj [(''error'',
        JObj [(''message'', JStr ''boom''), (''status'', JNum 418), (''stackHighlighted'', JStr [])])]]
   \<and> bodies (calls (developmentErrors [(''message'', JStr ''boom''), (''status'', JNum 418)]
      \<lparr>originalUrl = ''/x'', accepts = ApplicationJson\<rparr>))
   = [JObj [(''message'', JStr ''boom''), (''status'', JNum 418), (''stackHighlighted'', JStr [])]]"
  using developmentErrors_body_by_format
      [of "[(''message'', JStr ''boom''), (''status'', JNum 418)]" "[]"
          "\<lparr>originalUrl = ''/x'', accepts = TextHtml\<rparr>"]
    developmentErrors_body_by_format
      [of "[(''message'', JStr ''boom''), (''status'', JNum 418)]" "[]"
          "\<lparr>originalUrl = ''/x'', accepts = ApplicationJson\<rparr>"]
  by (simp add: js_or_def rx_stack_location_Nil)

text \<open>
  A handler that throws during its call: the wrapper ends with the same throw and
  \<^verbatim>\<open>next\<close> is not called.
\<close>

theorem catchErrors_sync_throw_counterexample:
  "catchErrors throwing_handler \<lparr>originalUrl = ''/x'', accepts = ApplicationJson\<rparr>
     = (Throw (JStr ''boom''), [])
   \<and> Next (JStr ''boom'')
     \<notin> set (snd (catchErrors throwing_handler \<lparr>originalUrl = ''/x'', accepts = ApplicationJson\<rparr>))"
  by (simp add: catchErrors_def throwing_handler_def)

text \<open>
  C4, amended. For every route handler wrapped by \<^verbatim>\<open>catchErrors\<close>, a rejection of the
  promise it returns is forwarded: after the handler's own calls the wrapper calls
  \<^verbatim>\<open>next\<close> with the reason, and the promise it returns is fulfilled. In every other
  case, a throw during the handler's call included, the wrapper adds no call and ends
  as the handler did.
\<close>

theorem catchErrors_forwards_rejection_only:
  assumes "fn req = (c, evs)"
  shows "snd (catchErrors fn req) =
      evs @ (case c of Return (Promise (Rejected e)) \<Rightarrow> [Next e] | _ \<Rightarrow> [])
    \<and> fst (catchErrors fn req) =
      (case c of Return (Promise (Rejected e)) \<Rightarrow> Return (Promise (Fulfilled JUndefined)) | _ \<Rightarrow> c)"
  using assms
  by (simp add: catchErrors_def split: completion.split returned.split settled.split)

text \<open>The rejecting handler and the throwing handler.\<close>

theorem catchErrors_forwards_rejection_only_witness:
  "catchErrors rejecting_handler \<lparr>originalUrl = ''/x'', accepts = ApplicationJson\<rparr>
     = (Return (Promise (Fulfilled JUndefined)), [ResStatus (JNum 200), Next (JStr ''boom'')])
   \<and> catchErrors throwing_handler \<lparr>originalUrl = ''/x'', accepts = ApplicationJson\<rparr>
     = (Throw (JStr ''boom''), [])"
  using catchErrors_forwards_rejection_only
      [of rejecting_handler "\<lparr>originalUrl = ''/x'', accepts = ApplicationJson\<rparr>"
          "Return (Promise (Rejected (JStr ''boom'')))" "[ResStatus (JNum 200)]"]
    catchErrors_forwards_rejection_only
      [of throwing_handler "\<lparr>originalUrl = ''/x'', accepts = ApplicationJson\<rparr>"
          "Throw (JStr ''boom'')" "[]"]
  by (simp add: rejecting_handler_def throwing_handler_def prod_eq_iff)

text \<open>
  C5. For every error that reaches \<^verbatim>\<open>productionErrors\<close>, the middleware sets the
  status 500, emits the JSON body holding the error object as it is under the key
  \<^verbatim>\<open>error\<close>, and then calls \<^verbatim>\<open>next\<close>.
\<close>

theorem productionErrors_raw_error_500:
  "calls (productionErrors err req) =
     [ResStatus (JNum 500), ResJson (JObj [(''error'', JObj err)]), Next JUndefined]
   \<and> threw (productionErrors err req) = None"
  by (simp add: productionErrors_def)

text \<open>The error \<^verbatim>\<open>{message: "boom", status: 418}\<close>.\<close>

theorem productionErrors_raw_error_500_witness:
  "calls (productionErrors [(''message'', JStr ''boom''), (''status'', JNum 418)]
      \<lparr>originalUrl = ''/x'', accepts = ApplicationJson\<rparr>)
   = [ResStatus (JNum 500),
      ResJson (JObj [(''error'', JObj [(''message'', JStr ''boom''), (''status'', JNum 418)])]),
      Next JUndefined]"
  using productionErrors_raw_error_500
      [of "[(''message'', JStr ''boom''), (''status'', JNum 418)]"
          "\<lparr>originalUrl = ''/x'', accepts = ApplicationJson\<rparr>"]
  by simp

text \<open>
  For a request with no acceptable type among \<^verbatim>\<open>text/html\<close> and
  \<^verbatim>\<open>application/json\<close>, \<^verbatim>\<open>res.format\<close> runs neither handler: the stage emits no
  body and still calls \<^verbatim>\<open>next()\<close>.
\<close>

theorem developmentErrors_next_without_response_counterexample:
  "calls (developmentErrors [(''message'', JStr ''boom''), (''status'', JNum 418)]
      \<lparr>originalUrl = ''/x'', accepts = NotAcceptable\<rparr>)
   = [ResStatus (JNum 418), FormatUnmatched, Next JUndefined]
   \<and> bodies (calls (developmentErrors [(''message'', JStr ''boom''), (''status'', JNum 418)]
      \<lparr>originalUrl = ''/x'', accepts = NotAcceptable\<rparr>)) = []"
  by (simp add: developmentErrors_def stack_defaulted_def js_or_def res_format_def)

text \<open>
  C6, amended. For every error handled by \<^verbatim>\<open>developmentErrors\<close> whose stack is a
  string or missing, the stage makes exactly three calls. The first sets the status to
  the error's \<^verbatim>\<open>status\<close> when that is set (truthy) and to 500 otherwise. The second
  is the negotiated one: \<^verbatim>\<open>res.send\<close> of the detail object under \<^verbatim>\<open>error\<close> for a
  request that prefers HTML, \<^verbatim>\<open>res.json\<close> of the detail object for one that prefers
  JSON, and no emission when no type is acceptable. The last is \<^verbatim>\<open>next()\<close>, in every
  case.
\<close>

theorem developmentErrors_status_then_next:
  assumes "js_or (js_get (JObj err) ''stack'') (JStr []) = JStr s"
  shows "calls (developmentErrors err req) =
        [ResStatus (if truthy (js_get (JObj err) ''status'')
                    then js_get (JObj err) ''status'' else JNum 500),
         (case accepts req of
            TextHtml \<Rightarrow> ResSend (JObj [(''error'', errorDetails err s)])
          | ApplicationJson \<Rightarrow> ResJson (errorDetails err s)
          | NotAcceptable \<Rightarrow> FormatUnmatched),
         Next JUndefined]
      \<and> threw (developmentErrors err req) = None"
  unfolding developmentErrors_string_stack [OF assms]
  by (simp add: res_format_def js_or_def split: negotiated.split del: js_get.simps)

text \<open>
  An error with the status 418 for a request preferring HTML, and an error with no
  status for a request preferring JSON.
\<close>

theorem developmentErrors_status_then_next_witness:
  "calls (developmentErrors [(''message'', JStr ''boom''), (''status'', JNum 418)]
      \<lparr>originalUrl = ''/x'', accepts = TextHtml\<rparr>)
   = [ResStatus (JNum 418),
      ResSend (JObj [(''error'',
        JObj [(''message'', JStr ''boom''), (''status'', JNum 418),
              (''stackHighlighted'', JStr [])])]),
      Next JUndefined]
   \<and> calls (developmentErrors [(''message'', JStr ''boom'')]
      \<lparr>originalUrl = ''/x'', accepts = ApplicationJson\<rparr>)
   = [ResStatus (JNum 500),
      ResJson (JObj [(''message'', JStr ''boom''), (''status'', JUndefined),
                     (''stackHighlighted'', JStr [])]),
      Next JUndefined]"
  using developmentErrors_status_then_next
      [of "[(''message'', JStr ''boom''), (''status'', JNum 418)]" "[]"
          "\<lparr>originalUrl = ''/x'', accepts = TextHtml\<rparr>"]
    developmentErrors_status_then_next
      [of "[(''message'', JStr ''boom'')]" "[]"
          "\<lparr>originalUrl = ''/x'', accepts = ApplicationJson\<rparr>"]
  by (simp add: js_or_def errorDetails_def rx_stack_location_Nil)

text \<open>
  C7. The claim has \<^verbatim>\<open>stackHighlighted\<close> equal to the stack with the
  \<^verbatim>\<open>file.js:line:column\<close> occurrences wrapped and every other character unchanged.
  On the stack \<^verbatim>\<open>Error: boom at /opt/nodejs:12:3\<close>, which has no such occurrence, the
  code wraps \<^verbatim>\<open>nodejs:12:3\<close>: the unescaped \<^verbatim>\<open>.\<close> of its pattern matches the
  \<^verbatim>\<open>e\<close>. With the full stop the specification words, the stack stays as it is.
\<close>

theorem stackHighlighted_marks_non_location:
  "bodies (calls (developmentErrors [(''stack'', JStr ''Error: boom at /opt/nodejs:12:3'')]
      \<lparr>originalUrl = ''/x'', accepts = ApplicationJson\<rparr>))
   = [JObj [(''message'', JUndefined), (''status'', JUndefined),
            (''stackHighlighted'', JStr ''Error: boom at /opt/<mark>nodejs:12:3</mark>'')]]
   \<and> replace_mark spec_source_location ''Error: boom at /opt/nodejs:12:3''
     = ''Error: boom at /opt/nodejs:12:3''"
  by (simp add: developmentErrors_def stack_defaulted_def js_or_def errorDetails_def res_format_def
      stack_location_def spec_source_location_def name_char_def digit_def any_char_def letter_def)

text \<open>
  C8. For every error without a field-validation mapping (\<^verbatim>\<open>err.errors\<close> is missing,
  or any other falsy value), \<^verbatim>\<open>flashValidationErrors\<close> makes one call, \<^verbatim>\<open>next\<close>
  with that same error, and emits no response.
\<close>

theorem flashValidationErrors_forwards_unchanged:
  assumes "\<not> truthy (js_get (JObj err) ''errors'')"
  shows "flashValidationErrors err req = \<lparr>calls = [Next (JObj err)], threw = None\<rparr>"
  using assms by (simp add: flashValidationErrors_def del: js_get.simps)

text \<open>The error \<^verbatim>\<open>{message: "boom", status: 418}\<close>, which has no \<^verbatim>\<open>errors\<close>.\<close>

theorem flashValidationErrors_forwards_unchanged_witness:
  "flashValidationErrors [(''message'', JStr ''boom''), (''status'', JNum 418)]
      \<lparr>originalUrl = ''/x'', accepts = TextHtml\<rparr>
   = \<lparr>calls = [Next (JObj [(''message'', JStr ''boom''), (''status'', JNum 418)])], threw = None\<rparr>"
  using flashValidationErrors_forwards_unchanged
      [of "[(''message'', JStr ''boom''), (''status'', JNum 418)]"
          "\<lparr>originalUrl = ''/x'', accepts = TextHtml\<rparr>"]
  by simp

text \<open>
  C9. For every group identifier \<open>g\<close>, after the listener of \<^verbatim>\<open>joinRoom\<close> has handled
  \<open>g\<close> the connection is in the room \<open>g\<close>; after \<^verbatim>\<open>outRoom\<close> with \<open>g\<close>, directly
  afterwards or in any later state, it is not.
\<close>

theorem joinRoom_then_outRoom:
  "g \<in> rooms (receive ''joinRoom'' g s)
   \<and> g \<notin> rooms (receive ''outRoom'' g (receive ''joinRoom'' g s))
   \<and> g \<notin> rooms (receive ''outRoom'' g s')"
  by (simp add: receive_def SocketServer_def join_def leave_def)

text \<open>A connection in no room joins and leaves \<^verbatim>\<open>lobby\<close>.\<close>

theorem joinRoom_then_outRoom_witness:
  "''lobby'' \<in> rooms (receive ''joinRoom'' ''lobby'' \<lparr>socket_id = ''s1'', rooms = {}, console = []\<rparr>)
   \<and> ''lobby'' \<notin> rooms (receive ''outRoom'' ''lobby''
        (receive ''joinRoom'' ''lobby'' \<lparr>socket_id = ''s1'', rooms = {}, console = []\<rparr>))"
  using joinRoom_then_outRoom
      [of "''lobby''" "\<lparr>socket_id = ''s1'', rooms = {}, console = []\<rparr>"
          "\<lparr>socket_id = ''s1'', rooms = {}, console = []\<rparr>"]
  by simp

text \<open>
  C10. For every error whose \<^verbatim>\<open>errors\<close> is an object with no fields,
  \<^verbatim>\<open>flashValidationErrors\<close> makes no call at all: it emits no response and never
  calls \<^verbatim>\<open>next\<close>, so no later stage is reached and the request is left unanswered.
\<close>

theorem flashValidationErrors_empty_mapping_stalls:
  assumes "js_get (JObj err) ''errors'' = JObj []"
  shows "flashValidationErrors err req = \<lparr>calls = [], threw = None\<rparr>"
  using assms by (simp add: flashValidationErrors_def del: js_get.simps)

text \<open>The error \<^verbatim>\<open>{message: "Validation failed", errors: {}}\<close>.\<close>

theorem flashValidationErrors_empty_mapping_stalls_witness:
  "flashValidationErrors [(''message'', JStr ''Validation failed''), (''errors'', JObj [])]
      \<lparr>originalUrl = ''/x'', accepts = TextHtml\<rparr>
   = \<lparr>calls = [], threw = None\<rparr>"
  using flashValidationErrors_empty_mapping_stalls
      [of "[(''message'', JStr ''Validation failed''), (''errors'', JObj [])]"
          "\<lparr>originalUrl = ''/x'', accepts = TextHtml\<rparr>"]
  by simp

end
